theory Spec2Isabelle
  imports Complex_Main "HOL-Library.Char_ord" "HOL-Library.List_Lexorder" "HOL-Library.AList"
begin

section \<open>Repository manager (core/repos/repomanager.go)\<close>

text \<open>
  What a Go function of type \<open>error\<close> can do: return nil, return an error value, or
  panic. The error values name the place that builds them.
\<close>

datatype go_error =
    RepoNotFoundForIndex int
  | RefreshFailed string

datatype outcome = Returned "go_error option" | Panicked string

text \<open>
  Modelled from the spec: \<open>utils.EnsureTrailingSlash\<close> is not under src/; the name and
  its use before every lookup in the repo list say that it appends a slash to a path
  that does not end with one.
\<close>

definition EnsureTrailingSlash :: "string \<Rightarrow> string" where
  "EnsureTrailingSlash repoPath =
     (if repoPath \<noteq> [] \<and> last repoPath = CHR ''/'' then repoPath else repoPath @ ''/'')"

text \<open>
  The manager's \<open>repoList\<close> is a Go map from identifier to \<open>*Repo\<close>: an association
  list read through \<open>map_of\<close>, so that a lookup of an absent key gives \<open>None\<close>, the
  nil pointer. \<open>Repo.refresh\<close> is a method on \<open>*Repo\<close> defined outside src/; it is a
  parameter that receives the pointer, nil included.
\<close>

record 'r RepoManager =
  repoList :: "(string \<times> 'r) list"

definition GetOrderedRepolistKeys :: "'r RepoManager \<Rightarrow> string list" where
  "GetOrderedRepolistKeys manager = sort (remdups (map fst (repoList manager)))"

definition RefreshRepo ::
  "('r option \<Rightarrow> outcome) \<Rightarrow> 'r RepoManager \<Rightarrow> string \<Rightarrow> outcome" where
  "RefreshRepo refresh manager repoPath =
     (let repoPath' = EnsureTrailingSlash repoPath;
          repo = map_of (repoList manager) repoPath'
      in refresh repo)"

text \<open>The \<open>for i, repoName := range keys\<close> loop with its \<open>if i != index { continue }\<close>.\<close>

fun key_at_index :: "int \<Rightarrow> nat \<Rightarrow> string list \<Rightarrow> string option" where
  "key_at_index index i [] = None"
| "key_at_index index i (repoName # keys) =
     (if int i \<noteq> index then key_at_index index (Suc i) keys else Some repoName)"

definition RefreshRepoByIndex ::
  "('r option \<Rightarrow> outcome) \<Rightarrow> 'r RepoManager \<Rightarrow> int \<Rightarrow> outcome" where
  "RefreshRepoByIndex refresh manager index =
     (case key_at_index index 0 (GetOrderedRepolistKeys manager) of
        Some repoName \<Rightarrow> refresh (map_of (repoList manager) repoName)
      | None \<Rightarrow> Returned (Some (RepoNotFoundForIndex index)))"

section \<open>Device events and agent messages (core/scheduler.go)\<close>

text \<open>
  The handlers act on collaborators that live outside src/ (task manager, environment
  manager, command servant, logger). Their calls are recorded, in program order, as
  effects; what the collaborators answer is a parameter of the model.
\<close>

datatype level = Debug | Info | Warning | Error

datatype DeviceEventType = END_OF_DATA | OTHER_DEVICE_EVENT nat

record DeviceEventOrigin =
  TaskId :: string

record DeviceEvent =
  GetOrigin :: DeviceEventOrigin
  GetType :: DeviceEventType

record MesosCommandTarget =
  target_AgentId :: string
  target_ExecutorId :: string
  target_TaskId :: string

record MesosCommandResponse_Transition =
  res_TaskId :: string
  res_CurrentState :: string

datatype 'e effect =
    Log level string
  | CurrentStateCalled "'e option"
  | TryTransitionCalled "'e option"
  | UpdateTaskState string string
  | ProcessResponse MesosCommandResponse_Transition MesosCommandTarget

text \<open>
  \<open>taskman_GetTask\<close> is \<open>state.taskman.GetTask\<close> (nil is \<open>None\<close>);
  \<open>environments_Environment\<close> is \<open>state.environments.Environment\<close>, which returns an
  environment pointer together with an error; \<open>env_CurrentState\<close> is the method
  \<open>CurrentState\<close> on that pointer, \<open>None\<close> when the call panics;
  \<open>env_TryTransition\<close> is the error that \<open>TryTransition\<close> with a stop-activity
  transition returns.
\<close>

record ('t, 'e) internalState =
  taskman_GetTask :: "string \<Rightarrow> 't option"
  task_GetEnvironmentId :: "'t \<Rightarrow> string"
  environments_Environment :: "string \<Rightarrow> 'e option \<times> string option"
  env_CurrentState :: "'e option \<Rightarrow> string option"
  env_TryTransition :: "'e option \<Rightarrow> string option"
  event_NewDeviceEvent :: "DeviceEventOrigin \<Rightarrow> DeviceEventType \<Rightarrow> DeviceEvent option"

datatype panic = NilDereference

type_synonym 'e run = "'e effect list \<times> panic option"

definition handleDeviceEvent :: "('t, 'e) internalState \<Rightarrow> DeviceEvent option \<Rightarrow> 'e run" where
  "handleDeviceEvent state evt =
     (case evt of
        None \<Rightarrow> ([Log Error ''cannot handle null DeviceEvent''], None)
      | Some ev \<Rightarrow>
          (case GetType ev of
             END_OF_DATA \<Rightarrow>
               (let taskId = TaskId (GetOrigin ev) in
                case taskman_GetTask state taskId of
                  None \<Rightarrow> ([Log Error ''cannot find task for DeviceEvent''], None)
                | Some t \<Rightarrow>
                    (let (env, err) = environments_Environment state (task_GetEnvironmentId state t);
                         logged = (if err \<noteq> None
                                   then [Log Error ''cannot find environment for DeviceEvent'']
                                   else [])
                     in case env_CurrentState state env of
                          None \<Rightarrow> (logged @ [CurrentStateCalled env], Some NilDereference)
                        | Some current \<Rightarrow>
                            if current = ''RUNNING''
                            then (logged @ [CurrentStateCalled env, TryTransitionCalled env] @
                                    (if env_TryTransition state env \<noteq> None
                                     then [Log Error ''cannot stop run after END_OF_DATA event'']
                                     else []),
                                  None)
                            else (logged @ [CurrentStateCalled env], None)))
           | OTHER_DEVICE_EVENT _ \<Rightarrow> ([], None)))"

text \<open>
  An inbound MESSAGE. The payload is opaque bytes that the handler decodes up to four
  times with \<open>json.Unmarshal\<close>, each time into a different struct; the model carries
  the payload as the results of these decodings (\<open>Inl\<close> the decoding error).
\<close>

record Data =
  as_incomingType :: "string + string"
  as_incomingEvent :: "string + DeviceEventType \<times> DeviceEventOrigin"
  as_incomingCommand :: "string + string"
  as_Transition :: "string + MesosCommandResponse_Transition"

record Message =
  GetAgentID :: string
  GetExecutorID :: string
  GetData :: Data

datatype handler_error =
    BadMessage
  | NoValidSender
  | UnmarshalError string
  | UnrecognizedResponse string

record 'e handled =
  effects :: "'e effect list"
  err :: "handler_error option"
  panicked :: "panic option"

text \<open>
  The body of the handler between its first \<open>log.Debug\<close> and the deferred one. The two
  calls inside \<open>go func() { ... }()\<close> are recorded in the order the goroutine makes them.
\<close>

definition incomingMessageHandler_body ::
  "('t, 'e) internalState \<Rightarrow> Message option \<Rightarrow> 'e handled" where
  "incomingMessageHandler_body state mesosMessage =
     (case mesosMessage of
        None \<Rightarrow> \<lparr>effects = [Log Warning ''message handler cannot continue''],
                  err = Some BadMessage, panicked = None\<rparr>
      | Some m \<Rightarrow>
          if length (GetAgentID m) = 0 \<or> length (GetExecutorID m) = 0
          then \<lparr>effects = [Log Warning ''message handler cannot continue''],
                err = Some NoValidSender, panicked = None\<rparr>
          else
            (let data = GetData m in
             case as_incomingType data of
               Inl e \<Rightarrow> \<lparr>effects = [], err = Some (UnmarshalError e), panicked = None\<rparr>
             | Inr MessageType \<Rightarrow>
                 if MessageType = ''DeviceEvent'' then
                   (case as_incomingEvent data of
                      Inl e \<Rightarrow> \<lparr>effects = [], err = Some (UnmarshalError e), panicked = None\<rparr>
                    | Inr (ty, origin) \<Rightarrow>
                        (case event_NewDeviceEvent state origin ty of
                           Some ev \<Rightarrow>
                             (let (effs, p) = handleDeviceEvent state (Some ev)
                              in \<lparr>effects = effs, err = None, panicked = p\<rparr>)
                         | None \<Rightarrow>
                             \<lparr>effects = [Log Error ''cannot handle incoming device event''],
                              err = None, panicked = None\<rparr>))
                 else if MessageType = ''MesosCommandResponse'' then
                   (case as_incomingCommand data of
                      Inl e \<Rightarrow> \<lparr>effects = [], err = Some (UnmarshalError e), panicked = None\<rparr>
                    | Inr CommandName \<Rightarrow>
                        if CommandName = ''MesosCommand_Transition'' then
                          (case as_Transition data of
                             Inl e \<Rightarrow>
                               \<lparr>effects = [Log Debug ''processing incoming MESSAGE'',
                                           Log Error ''cannot unmarshal incoming MESSAGE''],
                                err = Some (UnmarshalError e), panicked = None\<rparr>
                           | Inr res \<Rightarrow>
                               (let sender = \<lparr>target_AgentId = GetAgentID m,
                                              target_ExecutorId = GetExecutorID m,
                                              target_TaskId = res_TaskId res\<rparr>
                                in \<lparr>effects = [Log Debug ''processing incoming MESSAGE'',
                                               UpdateTaskState (res_TaskId res) (res_CurrentState res),
                                               ProcessResponse res sender],
                                    err = None, panicked = None\<rparr>))
                        else
                          \<lparr>effects = [Log Debug ''processing incoming MESSAGE''],
                           err = Some (UnrecognizedResponse CommandName), panicked = None\<rparr>)
                 else \<lparr>effects = [], err = None, panicked = None\<rparr>))"

definition incomingMessageHandler ::
  "('t, 'e) internalState \<Rightarrow> Message option \<Rightarrow> 'e handled" where
  "incomingMessageHandler state mesosMessage =
     (let r = incomingMessageHandler_body state mesosMessage
      in r\<lparr>effects := [Log Debug ''scheduler.incomingMessageHandler BEGIN''] @ effects r @
                        [Log Debug ''scheduler.incomingMessageHandler END'']\<rparr>)"

section \<open>Port ranges and resources (as the offers handler uses them)\<close>

text \<open>
  Port ranges come from the resource manager's client library: a \<open>Value_Range\<close> is a
  closed interval \<open>Begin..End\<close> of 64-bit ports, \<open>Ranges\<close> a list of them. Ports never
  wrap in what follows (one is added only below a larger port and subtracted only above
  a smaller one), so they are natural numbers.
\<close>

type_synonym Value_Range = "nat \<times> nat"
type_synonym Ranges = "Value_Range list"



text \<open>\<open>Ranges.Remove\<close>: what is left of each range once the removal is cut out of it.\<close>

fun cut_range :: "Value_Range \<Rightarrow> Value_Range \<Rightarrow> Ranges" where
  "cut_range (rb, re) (b, e) =
     (if b \<le> rb \<and> re \<le> e then []
      else if rb < b \<and> e < re then [(rb, b - 1), (e + 1, re)]
      else if re < b \<or> e < rb then [(rb, re)]
      else if e < re then [(e + 1, re)]
      else [(rb, b - 1)])"

definition Remove :: "Ranges \<Rightarrow> Value_Range \<Rightarrow> Ranges" where
  "Remove rs removal = concat (map (\<lambda>r. cut_range r removal) rs)"

text \<open>
  A resource bundle: the CPU and memory scalars and the port ranges. The scalars are
  64-bit floats in the source and reals here; the concrete runs below use small whole
  numbers, which both represent exactly.
\<close>

record Resources =
  cpus :: real
  mem :: real
  ports :: Ranges

text \<open>
  One port claim of the handler, written twice in the source with two floors:
  \<open>resources.Ports\<close> (not ok when no port resource is left, which is the empty list
  here, because \<open>Subtract\<close> drops a resource that became empty), \<open>Remove\<close> of
  \<open>0..floor\<close>, \<open>Min\<close> (the begin of the first range; it indexes the first range and so
  panics when nothing is left above the floor), and \<open>Subtract\<close> of the single port.
\<close>

datatype port_claim = NoPorts | MinOfEmpty | Claimed nat Ranges

definition claim_port :: "nat \<Rightarrow> Ranges \<Rightarrow> port_claim" where
  "claim_port floor_port remaining =
     (if remaining = [] then NoPorts
      else case Remove remaining (0, floor_port) of
             [] \<Rightarrow> MinOfEmpty
           | (port, _) # _ \<Rightarrow> Claimed port (Remove remaining (port, port)))"

section \<open>The OFFERS handler (core/scheduler.go, resourceOffers)\<close>

record Offer =
  ID :: string
  AgentID :: string
  Hostname :: string
  Resources :: Resources

record Wants =
  Cpu :: real
  Memory :: real
  StaticPorts :: Ranges
  BindPorts :: "string list"

type_synonym bindMap = "(string \<times> nat) list"

record 'd TaskInfo =
  ti_descriptor :: 'd
  ti_AgentID :: string
  ti_bindMap :: bindMap
  ti_ControlPort :: nat
  ti_Resources :: Resources

text \<open>
  The task manager, the constraint check, the JSON encoder and the executor's own
  resources are outside src/: they are the fields of \<open>taskman\<close>.
  \<open>Attributes_Satisfy\<close> is \<open>offerAttributes.Satisfy(descriptorConstraints[descriptor])\<close>,
  \<open>Resources_Satisfy\<close> is \<open>task.Resources(remainingResources).Satisfy(wants)\<close>,
  \<open>NewTaskForMesosOffer\<close> tells whether the task manager returns a task (not nil),
  \<open>json_Marshal\<close> whether the task's command serializes.
\<close>

record 'd taskman =
  Attributes_Satisfy :: "Offer \<Rightarrow> 'd \<Rightarrow> bool"
  GetWantsForDescriptor :: "'d \<Rightarrow> Wants option"
  Resources_Satisfy :: "Resources \<Rightarrow> Wants \<Rightarrow> bool"
  NewTaskForMesosOffer :: "Offer \<Rightarrow> 'd \<Rightarrow> bindMap \<Rightarrow> bool"
  json_Marshal :: "'d \<Rightarrow> bool"
  executor_Resources :: Resources

datatype 'd call =
    Lock
  | Unlock
  | AgentCache_Update string
  | ACCEPT string "'d TaskInfo list"
  | DECLINE "string set"

datatype crash = MinOfEmptyRanges | IndexOutOfRange | UnlockOfUnlockedMutex | LockOfLockedMutex

text \<open>
  The variables of one cycle. \<open>remainingResources\<close> and \<open>tasks\<close> are reset for every
  offer; \<open>calls\<close> lists, in program order, the mutex operations, the agent-cache updates
  and the calls sent to the resource manager; \<open>crashed\<close> is set when the handler panics
  or the runtime stops the process, and nothing runs after that. The handler is followed
  on its own: \<open>locked\<close> tells whether it holds the state mutex, an Unlock of a mutex
  that is not locked is the runtime's fatal error, and other goroutines are not part of
  the model.
\<close>

record 'd cycle =
  remainingResources :: Resources
  descriptorsToDeploy :: "'d list"
  tasks :: "'d TaskInfo list"
  offerIDsToDecline :: "string set"
  calls :: "'d call list"
  locked :: bool
  crashed :: "crash option"

definition state_Lock :: "'d cycle \<Rightarrow> 'd cycle" where
  "state_Lock st =
     (if locked st then st\<lparr>crashed := Some LockOfLockedMutex\<rparr>
      else st\<lparr>locked := True, calls := calls st @ [Lock]\<rparr>)"

definition state_Unlock :: "'d cycle \<Rightarrow> 'd cycle" where
  "state_Unlock st =
     (if locked st then st\<lparr>locked := False, calls := calls st @ [Unlock]\<rparr>
      else st\<lparr>calls := calls st @ [Unlock], crashed := Some UnlockOfUnlockedMutex\<rparr>)"

text \<open>The loop over \<open>wants.BindPorts\<close>, floor 8999.\<close>

datatype bound = Bound Ranges bindMap | OutOfPorts Ranges | BindCrash

fun bind_ports :: "string list \<Rightarrow> Ranges \<Rightarrow> bindMap \<Rightarrow> bound" where
  "bind_ports [] remaining bm = Bound remaining bm"
| "bind_ports (ch # chs) remaining bm =
     (case claim_port 8999 remaining of
        NoPorts \<Rightarrow> OutOfPorts remaining
      | MinOfEmpty \<Rightarrow> BindCrash
      | Claimed port remaining' \<Rightarrow> bind_ports chs remaining' (AList.update ch port bm))"

text \<open>
  The resources a launch asks for: CPU and memory of the demand, the static ports, the
  bound ports and the control port, plus the executor's resources. The source sorts and
  squashes the port spans before sending them; the spans are kept here as built.
\<close>

definition resourcesRequest :: "'d taskman \<Rightarrow> Wants \<Rightarrow> bindMap \<Rightarrow> nat \<Rightarrow> Resources" where
  "resourcesRequest tm wants bm controlPort =
     \<lparr>cpus = Cpu wants + cpus (executor_Resources tm),
      mem = Memory wants + mem (executor_Resources tm),
      ports = StaticPorts wants @ map (\<lambda>(_, port). (port, port)) bm @
              [(controlPort, controlPort)] @ ports (executor_Resources tm)\<rparr>"

text \<open>
  The body of \<open>FOR_DESCRIPTORS\<close> for one descriptor, up to the removal of the
  descriptor from the list: the result says whether a task was appended.
\<close>

definition try_descriptor :: "'d taskman \<Rightarrow> Offer \<Rightarrow> 'd \<Rightarrow> 'd cycle \<Rightarrow> bool \<times> 'd cycle" where
  "try_descriptor tm offer descriptor st =
     (if \<not> Attributes_Satisfy tm offer descriptor then (False, st)
      else case GetWantsForDescriptor tm descriptor of
        None \<Rightarrow> (False, st)
      | Some wants \<Rightarrow>
          if \<not> Resources_Satisfy tm (remainingResources st) wants then (False, st)
          else
            (case bind_ports (BindPorts wants) (ports (remainingResources st)) [] of
               BindCrash \<Rightarrow> (False, st\<lparr>crashed := Some MinOfEmptyRanges\<rparr>)
             | OutOfPorts remaining \<Rightarrow>
                 (False, st\<lparr>remainingResources := (remainingResources st)\<lparr>ports := remaining\<rparr>\<rparr>)
             | Bound remaining bm \<Rightarrow>
                 (let st1 = st\<lparr>remainingResources := (remainingResources st)\<lparr>ports := remaining\<rparr>,
                               calls := calls st @ [AgentCache_Update (AgentID offer)]\<rparr>
                  in if \<not> NewTaskForMesosOffer tm offer descriptor bm then (False, st1)
                     else
                       (let st2 = st1\<lparr>offerIDsToDecline := offerIDsToDecline st1 - {ID offer}\<rparr>
                        in case claim_port 29999 remaining of
                             NoPorts \<Rightarrow> (False, st2)
                           | MinOfEmpty \<Rightarrow> (False, st2\<lparr>crashed := Some MinOfEmptyRanges\<rparr>)
                           | Claimed controlPort remaining' \<Rightarrow>
                               (let st3 = st2\<lparr>remainingResources :=
                                                (remainingResources st2)\<lparr>ports := remaining'\<rparr>\<rparr>
                                in if \<not> json_Marshal tm descriptor then (False, state_Unlock st3)
                                   else
                                     (True,
                                      st3\<lparr>tasks := tasks st3 @
                                         [\<lparr>ti_descriptor = descriptor,
                                           ti_AgentID = AgentID offer,
                                           ti_bindMap = bm,
                                           ti_ControlPort = controlPort,
                                           ti_Resources =
                                             resourcesRequest tm wants bm controlPort\<rparr>]\<rparr>))))))"

text \<open>
  One iteration at index \<open>i\<close>: read \<open>descriptorsToDeploy[i]\<close>, run the body, and on a
  launch replace the list by \<open>append(descriptorsToDeploy[:i], descriptorsToDeploy[i+1:]...)\<close>.
\<close>

definition iteration :: "'d taskman \<Rightarrow> Offer \<Rightarrow> nat \<Rightarrow> 'd cycle \<Rightarrow> 'd cycle" where
  "iteration tm offer i st =
     (if crashed st \<noteq> None then st
      else if length (descriptorsToDeploy st) \<le> i then st\<lparr>crashed := Some IndexOutOfRange\<rparr>
      else
        (let (launched, st') = try_descriptor tm offer (descriptorsToDeploy st ! i) st
         in if launched
            then st'\<lparr>descriptorsToDeploy :=
                       take i (descriptorsToDeploy st') @ drop (Suc i) (descriptorsToDeploy st')\<rparr>
            else st'))"

text \<open>
  \<open>for i := len(descriptorsToDeploy)-1; i >= 0; i--\<close>: \<open>FOR_DESCRIPTORS tm offer n\<close> runs
  the iterations at \<open>n - 1\<close>, ..., \<open>0\<close>.
\<close>

primrec FOR_DESCRIPTORS :: "'d taskman \<Rightarrow> Offer \<Rightarrow> nat \<Rightarrow> 'd cycle \<Rightarrow> 'd cycle" where
  "FOR_DESCRIPTORS tm offer 0 st = st"
| "FOR_DESCRIPTORS tm offer (Suc i) st = FOR_DESCRIPTORS tm offer i (iteration tm offer i st)"

text \<open>The body of \<open>for _, offer := range offers\<close>, with its ACCEPT call.\<close>

definition process_offer :: "'d taskman \<Rightarrow> Offer \<Rightarrow> 'd cycle \<Rightarrow> 'd cycle" where
  "process_offer tm offer st =
     (if crashed st \<noteq> None then st
      else
        (let st1 = state_Lock (st\<lparr>remainingResources := Resources offer, tasks := []\<rparr>);
             st2 = FOR_DESCRIPTORS tm offer (length (descriptorsToDeploy st1)) st1;
             st3 = (if crashed st2 \<noteq> None then st2 else state_Unlock st2)
         in if crashed st3 \<noteq> None then st3
            else st3\<lparr>calls := calls st3 @ [ACCEPT (ID offer) (tasks st3)]\<rparr>))"

definition initial_cycle :: "Offer list \<Rightarrow> 'd list \<Rightarrow> 'd cycle" where
  "initial_cycle offers descriptors =
     \<lparr>remainingResources = \<lparr>cpus = 0, mem = 0, ports = []\<rparr>,
      descriptorsToDeploy = descriptors,
      tasks = [],
      offerIDsToDecline = set (map ID offers),
      calls = [],
      locked = False,
      crashed = None\<rparr>"

text \<open>
  The handler: the decline-set starts as all offer identifiers; the offers are walked
  only when descriptors were received; one DECLINE is sent when the set is not empty.
  Logging, metrics and the notification of listeners are left out.
\<close>

definition resourceOffers :: "'d taskman \<Rightarrow> Offer list \<Rightarrow> 'd list \<Rightarrow> 'd cycle" where
  "resourceOffers tm offers descriptors =
     (let st0 = initial_cycle offers descriptors;
          st1 = (if length descriptors > 0 then fold (process_offer tm) offers st0 else st0)
      in if crashed st1 \<noteq> None then st1
         else if offerIDsToDecline st1 \<noteq> {}
              then st1\<lparr>calls := calls st1 @ [DECLINE (offerIDsToDecline st1)]\<rparr>
              else st1)"

text \<open>
  Modelled from the spec: \<open>task.Resources.Satisfy\<close> is not under src/. Section 4.7,
  step 3b, skips a descriptor when the offer's remaining resources do not satisfy its
  demand: the CPU and the memory asked for are at most what remains and every static
  port asked for is among the remaining ports. It is used for the concrete runs only.
\<close>

definition in_ranges :: "nat \<Rightarrow> Ranges \<Rightarrow> bool" where
  "in_ranges p rs = list_ex (\<lambda>(b, e). b \<le> p \<and> p \<le> e) rs"

definition Satisfy :: "Resources \<Rightarrow> Wants \<Rightarrow> bool" where
  "Satisfy r wants \<longleftrightarrow>
     Cpu wants \<le> cpus r \<and> Memory wants \<le> mem r \<and>
     list_all (\<lambda>(b, e). list_all (\<lambda>p. in_ranges p (ports r)) [b..<Suc e]) (StaticPorts wants)"

section \<open>What the specification says, to compare with the handler\<close>



text \<open>
  Section 4.7, step 3: the descriptor list is walked in reverse insertion order. The walk
  takes the descriptors last-submitted first, tries each one on the offer, and keeps the
  ones that were not launched, in their original order, as the new pending list.
\<close>

fun reverse_walk ::
  "'d taskman \<Rightarrow> Offer \<Rightarrow> 'd list \<Rightarrow> 'd list \<Rightarrow> 'd cycle \<Rightarrow> 'd cycle" where
  "reverse_walk tm offer [] kept st = st\<lparr>descriptorsToDeploy := kept\<rparr>"
| "reverse_walk tm offer (d # earlier) kept st =
     (if crashed st \<noteq> None then st\<lparr>descriptorsToDeploy := rev (d # earlier) @ kept\<rparr>
      else
        (let (launched, st') = try_descriptor tm offer d st
         in reverse_walk tm offer earlier (if launched then kept else d # kept) st'))"

text \<open>The messages that a run logged at a given level.\<close>

definition logged_at :: "level \<Rightarrow> 'e effect list \<Rightarrow> string list" where
  "logged_at l effs = concat (map (\<lambda>eff. case eff of Log l' msg \<Rightarrow> (if l' = l then [msg] else []) | _ \<Rightarrow> []) effs)"

text \<open>The CPUs that a list of launches asks for, in total.\<close>

definition requested_cpus :: "'d TaskInfo list \<Rightarrow> real" where
  "requested_cpus ts = sum_list (map (\<lambda>t. cpus (ti_Resources t)) ts)"

section \<open>Concrete collaborators, offers and messages\<close>

definition example_taskman ::
  "(string \<Rightarrow> Wants option) \<Rightarrow> (string \<Rightarrow> bool) \<Rightarrow> string taskman" where
  "example_taskman wants marshals =
     \<lparr>Attributes_Satisfy = (\<lambda>_ _. True),
      GetWantsForDescriptor = wants,
      Resources_Satisfy = Satisfy,
      NewTaskForMesosOffer = (\<lambda>_ _ _. True),
      json_Marshal = marshals,
      executor_Resources = \<lparr>cpus = 0, mem = 0, ports = []\<rparr>\<rparr>"

definition example_offer :: "string \<Rightarrow> real \<Rightarrow> Ranges \<Rightarrow> Offer" where
  "example_offer name cpu rs =
     \<lparr>ID = name, AgentID = ''agent-'' @ name, Hostname = ''host-'' @ name,
      Resources = \<lparr>cpus = cpu, mem = 8192, ports = rs\<rparr>\<rparr>"

definition demand :: "real \<Rightarrow> string list \<Rightarrow> Wants" where
  "demand cpu names = \<lparr>Cpu = cpu, Memory = 1024, StaticPorts = [], BindPorts = names\<rparr>"

text \<open>Every class asks for three CPUs and no named port.\<close>

definition three_cpus :: "string \<Rightarrow> Wants option" where
  "three_cpus d = Some (demand 3 [])"

text \<open>Every class asks for one CPU and one named port, \<open>data\<close>.\<close>

definition one_data_port :: "string \<Rightarrow> Wants option" where
  "one_data_port d = Some (demand 1 [''data''])"

text \<open>Class \<open>big\<close> asks for two named ports, every other class for none.\<close>

definition big_and_small :: "string \<Rightarrow> Wants option" where
  "big_and_small d =
     (if d = ''big'' then Some (demand 1 [''p1'', ''p2'']) else Some (demand 1 []))"

definition always :: "string \<Rightarrow> bool" where
  "always d = True"

definition never :: "string \<Rightarrow> bool" where
  "never d = False"

text \<open>
  A state whose only task \<open>t1\<close> belongs to environment \<open>env1\<close>; the lookup of any other
  environment fails with a nil pointer, and \<open>CurrentState\<close> reads through its receiver.
\<close>

definition example_state :: "string \<Rightarrow> (string, string) internalState" where
  "example_state current =
     \<lparr>taskman_GetTask = (\<lambda>taskId. if taskId = ''t1'' then Some ''task1'' else
                                   if taskId = ''t2'' then Some ''task2'' else None),
      task_GetEnvironmentId = (\<lambda>t. if t = ''task1'' then ''env1'' else ''gone''),
      environments_Environment =
        (\<lambda>envId. if envId = ''env1'' then (Some ''E1'', None) else (None, Some ''no environment'')),
      env_CurrentState = (\<lambda>env. case env of None \<Rightarrow> None | Some _ \<Rightarrow> Some current),
      env_TryTransition = (\<lambda>_. None),
      event_NewDeviceEvent = (\<lambda>origin ty. Some \<lparr>GetOrigin = origin, GetType = ty\<rparr>)\<rparr>"

definition end_of_data_from :: "string \<Rightarrow> DeviceEvent" where
  "end_of_data_from taskId = \<lparr>GetOrigin = \<lparr>TaskId = taskId\<rparr>, GetType = END_OF_DATA\<rparr>"

definition example_message :: "Data \<Rightarrow> Message" where
  "example_message data = \<lparr>GetAgentID = ''agent1'', GetExecutorID = ''executor1'', GetData = data\<rparr>"

definition not_json :: Data where
  "not_json =
     \<lparr>as_incomingType = Inl ''invalid character'',
      as_incomingEvent = Inl ''invalid character'',
      as_incomingCommand = Inl ''invalid character'',
      as_Transition = Inl ''invalid character''\<rparr>"

definition unknown_type :: Data where
  "unknown_type =
     \<lparr>as_incomingType = Inr ''Heartbeat'',
      as_incomingEvent = Inr (OTHER_DEVICE_EVENT 0, \<lparr>TaskId = []\<rparr>),
      as_incomingCommand = Inr [],
      as_Transition = Inr \<lparr>res_TaskId = [], res_CurrentState = []\<rparr>\<rparr>"

definition transition_response :: Data where
  "transition_response =
     \<lparr>as_incomingType = Inr ''MesosCommandResponse'',
      as_incomingEvent = Inr (OTHER_DEVICE_EVENT 0, \<lparr>TaskId = []\<rparr>),
      as_incomingCommand = Inr ''MesosCommand_Transition'',
      as_Transition = Inr \<lparr>res_TaskId = ''t1'', res_CurrentState = ''CONFIGURED''\<rparr>\<rparr>"

section \<open>Properties of the repository manager\<close>

lemma key_at_index_None:
  "index < int i \<or> int i + int (length keys) \<le> index \<Longrightarrow> key_at_index index i keys = None"
  by (induction keys arbitrary: i) auto

text \<open>
  C10. \<open>RefreshRepo\<close> looks the normalised path up and calls \<open>refresh\<close> on whatever the
  lookup gives: on the registered repo when the path is a key, on the nil repo when it
  is not, and it never builds a not-found error of its own. \<open>RefreshRepoByIndex\<close>
  returns its not-found error for every index outside the key list.
\<close>

theorem RefreshRepo_absent_path_calls_refresh_on_nil:
  "(map_of (repoList manager) (EnsureTrailingSlash repoPath) = Some repo \<longrightarrow>
      RefreshRepo refresh manager repoPath = refresh (Some repo)) \<and>
   (EnsureTrailingSlash repoPath \<notin> fst ` set (repoList manager) \<longrightarrow>
      RefreshRepo refresh manager repoPath = refresh None) \<and>
   (index < 0 \<or> int (length (GetOrderedRepolistKeys manager)) \<le> index \<longrightarrow>
      RefreshRepoByIndex refresh manager index = Returned (Some (RepoNotFoundForIndex index)))"
proof (intro conjI impI)
  assume "map_of (repoList manager) (EnsureTrailingSlash repoPath) = Some repo"
  then show "RefreshRepo refresh manager repoPath = refresh (Some repo)"
    by (simp add: RefreshRepo_def)
next
  assume "EnsureTrailingSlash repoPath \<notin> fst ` set (repoList manager)"
  then have "map_of (repoList manager) (EnsureTrailingSlash repoPath) = None"
    by (simp add: map_of_eq_None_iff)
  then show "RefreshRepo refresh manager repoPath = refresh None"
    by (simp add: RefreshRepo_def)
next
  assume "index < 0 \<or> int (length (GetOrderedRepolistKeys manager)) \<le> index"
  then have "key_at_index index 0 (GetOrderedRepolistKeys manager) = None"
    by (intro key_at_index_None) auto
  then show "RefreshRepoByIndex refresh manager index = Returned (Some (RepoNotFoundForIndex index))"
    by (simp add: RefreshRepoByIndex_def)
qed

theorem RefreshRepo_absent_path_witness:
  "RefreshRepo (\<lambda>r. case r of None \<Rightarrow> Panicked ''nil repo'' | Some _ \<Rightarrow> Returned None)
     \<lparr>repoList = [(''github.com/a/b/'', 1::nat)]\<rparr> ''github.com/a/b'' = Returned None \<and>
   RefreshRepo (\<lambda>r. case r of None \<Rightarrow> Panicked ''nil repo'' | Some _ \<Rightarrow> Returned None)
     \<lparr>repoList = [(''github.com/a/b/'', 1::nat)]\<rparr> ''github.com/c/d'' = Panicked ''nil repo'' \<and>
   RefreshRepoByIndex (\<lambda>r. case r of None \<Rightarrow> Panicked ''nil repo'' | Some _ \<Rightarrow> Returned None)
     \<lparr>repoList = [(''github.com/a/b/'', 1::nat)]\<rparr> 1 = Returned (Some (RepoNotFoundForIndex 1))"
  using
    RefreshRepo_absent_path_calls_refresh_on_nil
      [where manager = "\<lparr>repoList = [(''github.com/a/b/'', 1::nat)]\<rparr>"
         and repoPath = "''github.com/a/b''" and repo = 1 and index = 1
         and refresh = "\<lambda>r. case r of None \<Rightarrow> Panicked ''nil repo'' | Some _ \<Rightarrow> Returned None"]
    RefreshRepo_absent_path_calls_refresh_on_nil
      [where manager = "\<lparr>repoList = [(''github.com/a/b/'', 1::nat)]\<rparr>"
         and repoPath = "''github.com/c/d''" and repo = 1 and index = 1
         and refresh = "\<lambda>r. case r of None \<Rightarrow> Panicked ''nil repo'' | Some _ \<Rightarrow> Returned None"]
  by (simp add: EnsureTrailingSlash_def GetOrderedRepolistKeys_def)

section \<open>Properties of the device-event and message handlers\<close>

lemma handleDeviceEvent_END_OF_DATA:
  assumes "GetType ev = END_OF_DATA"
    and "taskman_GetTask state (TaskId (GetOrigin ev)) = Some t"
    and "environments_Environment state (task_GetEnvironmentId state t) = (env, failure)"
  shows "handleDeviceEvent state (Some ev) =
     (let logged = (if failure \<noteq> None
                    then [Log Error ''cannot find environment for DeviceEvent''] else [])
      in case env_CurrentState state env of
           None \<Rightarrow> (logged @ [CurrentStateCalled env], Some NilDereference)
         | Some current \<Rightarrow>
             if current = ''RUNNING''
             then (logged @ [CurrentStateCalled env, TryTransitionCalled env] @
                     (if env_TryTransition state env \<noteq> None
                      then [Log Error ''cannot stop run after END_OF_DATA event''] else []),
                   None)
             else (logged @ [CurrentStateCalled env], None))"
  using assms by (simp add: handleDeviceEvent_def)

text \<open>
  C7. An END_OF_DATA event from a known task whose environment is found: when the
  environment is in state RUNNING the handler calls \<open>TryTransition\<close> with the
  stop-activity transition on it, without any other input; in any other state it calls
  no transition. The handler does not panic in either case.
\<close>

theorem END_OF_DATA_stops_running_environment:
  assumes "GetType ev = END_OF_DATA"
    and "taskman_GetTask state (TaskId (GetOrigin ev)) = Some t"
    and "environments_Environment state (task_GetEnvironmentId state t) = (Some env, None)"
    and "env_CurrentState state (Some env) = Some current"
  shows "(current = ''RUNNING'' \<longrightarrow>
            TryTransitionCalled (Some env) \<in> set (fst (handleDeviceEvent state (Some ev)))) \<and>
         (current \<noteq> ''RUNNING'' \<longrightarrow>
            (\<forall>e. TryTransitionCalled e \<notin> set (fst (handleDeviceEvent state (Some ev))))) \<and>
         snd (handleDeviceEvent state (Some ev)) = None"
  using assms(4) by (simp add: handleDeviceEvent_END_OF_DATA [OF assms(1-3)])

theorem END_OF_DATA_stops_running_environment_witness:
  "TryTransitionCalled (Some ''E1'') \<in>
     set (fst (handleDeviceEvent (example_state ''RUNNING'') (Some (end_of_data_from ''t1'')))) \<and>
   (\<forall>e. TryTransitionCalled e \<notin>
     set (fst (handleDeviceEvent (example_state ''CONFIGURED'') (Some (end_of_data_from ''t1'')))))"
  using
    END_OF_DATA_stops_running_environment
      [where ev = "end_of_data_from ''t1''" and state = "example_state ''RUNNING''"
         and t = "''task1''" and env = "''E1''" and current = "''RUNNING''"]
    END_OF_DATA_stops_running_environment
      [where ev = "end_of_data_from ''t1''" and state = "example_state ''CONFIGURED''"
         and t = "''task1''" and env = "''E1''" and current = "''CONFIGURED''"]
  by (simp add: example_state_def end_of_data_from_def)

text \<open>
  C9. An END_OF_DATA event from a known task whose environment lookup returns an error:
  the handler logs the error, does not return, and calls \<open>CurrentState\<close> on the
  environment value that came with the error; when that call dereferences a nil
  environment the handler panics.
\<close>

theorem failed_environment_lookup_calls_CurrentState:
  assumes "GetType ev = END_OF_DATA"
    and "taskman_GetTask state (TaskId (GetOrigin ev)) = Some t"
    and "environments_Environment state (task_GetEnvironmentId state t) = (env, Some failure)"
  shows "take 2 (fst (handleDeviceEvent state (Some ev))) =
           [Log Error ''cannot find environment for DeviceEvent'', CurrentStateCalled env] \<and>
         (env_CurrentState state env = None \<longrightarrow>
            handleDeviceEvent state (Some ev) =
              ([Log Error ''cannot find environment for DeviceEvent'', CurrentStateCalled env],
               Some NilDereference))"
  by (simp add: handleDeviceEvent_END_OF_DATA [OF assms] Let_def numeral_2_eq_2 split: option.split)

theorem failed_environment_lookup_witness:
  "handleDeviceEvent (example_state ''RUNNING'') (Some (end_of_data_from ''t2'')) =
     ([Log Error ''cannot find environment for DeviceEvent'', CurrentStateCalled None],
      Some NilDereference)"
  using failed_environment_lookup_calls_CurrentState
      [where ev = "end_of_data_from ''t2''" and state = "example_state ''RUNNING''"
         and t = "''task2''" and env = None and failure = "''no environment''"]
  by (simp add: example_state_def end_of_data_from_def)

text \<open>
  C8, as the handler does it. For a MESSAGE with a valid sender: a payload that does not
  decode at the \<open>_messageType\<close> peek makes the handler return the decoding error to its
  caller, with nothing logged but the two debug markers and nothing delivered; a
  discriminator other than \<open>DeviceEvent\<close> and \<open>MesosCommandResponse\<close> is dropped with
  no log and no error; a \<open>MesosCommandResponse\<close> named \<open>MesosCommand_Transition\<close> that
  decodes in full is delivered to the command servant with the sender made of the
  message's agent and executor and the response's task.
\<close>

theorem incomingMessageHandler_routes:
  assumes "GetAgentID m \<noteq> []" and "GetExecutorID m \<noteq> []"
  shows "(as_incomingType (GetData m) = Inl e \<longrightarrow>
            incomingMessageHandler state (Some m) =
              \<lparr>effects = [Log Debug ''scheduler.incomingMessageHandler BEGIN'',
                          Log Debug ''scheduler.incomingMessageHandler END''],
               err = Some (UnmarshalError e), panicked = None\<rparr>) \<and>
         (as_incomingType (GetData m) = Inr ty \<and> ty \<noteq> ''DeviceEvent'' \<and>
          ty \<noteq> ''MesosCommandResponse'' \<longrightarrow>
            incomingMessageHandler state (Some m) =
              \<lparr>effects = [Log Debug ''scheduler.incomingMessageHandler BEGIN'',
                          Log Debug ''scheduler.incomingMessageHandler END''],
               err = None, panicked = None\<rparr>) \<and>
         (as_incomingType (GetData m) = Inr ''MesosCommandResponse'' \<and>
          as_incomingCommand (GetData m) = Inr ''MesosCommand_Transition'' \<and>
          as_Transition (GetData m) = Inr res \<longrightarrow>
            incomingMessageHandler state (Some m) =
              \<lparr>effects = [Log Debug ''scheduler.incomingMessageHandler BEGIN'',
                          Log Debug ''processing incoming MESSAGE'',
                          UpdateTaskState (res_TaskId res) (res_CurrentState res),
                          ProcessResponse res
                            \<lparr>target_AgentId = GetAgentID m,
                             target_ExecutorId = GetExecutorID m,
                             target_TaskId = res_TaskId res\<rparr>,
                          Log Debug ''scheduler.incomingMessageHandler END''],
               err = None, panicked = None\<rparr>)"
  using assms
  by (simp add: incomingMessageHandler_def incomingMessageHandler_body_def)

theorem incomingMessageHandler_routes_witness:
  "err (incomingMessageHandler (example_state ''RUNNING'') (Some (example_message not_json))) =
     Some (UnmarshalError ''invalid character'') \<and>
   err (incomingMessageHandler (example_state ''RUNNING'') (Some (example_message unknown_type))) =
     None \<and>
   effects (incomingMessageHandler (example_state ''RUNNING'')
              (Some (example_message transition_response))) =
     [Log Debug ''scheduler.incomingMessageHandler BEGIN'',
      Log Debug ''processing incoming MESSAGE'',
      UpdateTaskState ''t1'' ''CONFIGURED'',
      ProcessResponse \<lparr>res_TaskId = ''t1'', res_CurrentState = ''CONFIGURED''\<rparr>
        \<lparr>target_AgentId = ''agent1'', target_ExecutorId = ''executor1'', target_TaskId = ''t1''\<rparr>,
      Log Debug ''scheduler.incomingMessageHandler END'']"
  using
    incomingMessageHandler_routes
      [where m = "example_message not_json" and state = "example_state ''RUNNING''"
         and e = "''invalid character''" and ty = "''Heartbeat''"
         and res = "\<lparr>res_TaskId = ''t1'', res_CurrentState = ''CONFIGURED''\<rparr>"]
    incomingMessageHandler_routes
      [where m = "example_message unknown_type" and state = "example_state ''RUNNING''"
         and e = "''invalid character''" and ty = "''Heartbeat''"
         and res = "\<lparr>res_TaskId = ''t1'', res_CurrentState = ''CONFIGURED''\<rparr>"]
    incomingMessageHandler_routes
      [where m = "example_message transition_response" and state = "example_state ''RUNNING''"
         and e = "''invalid character''" and ty = "''Heartbeat''"
         and res = "\<lparr>res_TaskId = ''t1'', res_CurrentState = ''CONFIGURED''\<rparr>"]
  by (simp add: example_message_def not_json_def unknown_type_def transition_response_def)

text \<open>
  A payload that fails the peek is not logged at warning, and a payload with an unknown
  discriminator is not logged at all: the handler's log holds the two debug markers only.
\<close>

theorem undecodable_payload_not_logged_counterexample:
  "logged_at Warning
     (effects (incomingMessageHandler (example_state ''RUNNING'')
                 (Some (example_message not_json)))) = [] \<and>
   err (incomingMessageHandler (example_state ''RUNNING'') (Some (example_message not_json))) =
     Some (UnmarshalError ''invalid character'') \<and>
   effects (incomingMessageHandler (example_state ''RUNNING'')
              (Some (example_message unknown_type))) =
     [Log Debug ''scheduler.incomingMessageHandler BEGIN'',
      Log Debug ''scheduler.incomingMessageHandler END'']"
  by (simp add: incomingMessageHandler_def incomingMessageHandler_body_def logged_at_def
      example_message_def not_json_def unknown_type_def)

section \<open>Properties of port ranges\<close>


















section \<open>Properties of the OFFERS handler\<close>

lemmas run_defs =
  resourceOffers_def initial_cycle_def process_offer_def state_Lock_def state_Unlock_def
  iteration_def try_descriptor_def example_taskman_def example_offer_def demand_def Satisfy_def
  claim_port_def Remove_def resourcesRequest_def three_cpus_def one_data_port_def
  big_and_small_def always_def never_def





text \<open>
  C1. Two descriptors that each ask for three CPUs are both launched on one offer of
  four CPUs: the ACCEPT for the offer asks for six.
\<close>

theorem two_launches_exceed_offered_cpus:
  "calls (resourceOffers (example_taskman three_cpus always)
            [example_offer ''O1'' 4 [(10000, 11000), (47101, 47200)]] [''a'', ''b'']) =
     [Lock, AgentCache_Update ''agent-O1'', AgentCache_Update ''agent-O1'', Unlock,
      ACCEPT ''O1''
        [\<lparr>ti_descriptor = ''b'', ti_AgentID = ''agent-O1'', ti_bindMap = [],
          ti_ControlPort = 47101,
          ti_Resources = \<lparr>cpus = 3, mem = 1024, ports = [(47101, 47101)]\<rparr>\<rparr>,
         \<lparr>ti_descriptor = ''a'', ti_AgentID = ''agent-O1'', ti_bindMap = [],
          ti_ControlPort = 47102,
          ti_Resources = \<lparr>cpus = 3, mem = 1024, ports = [(47102, 47102)]\<rparr>\<rparr>]] \<and>
   requested_cpus (tasks (resourceOffers (example_taskman three_cpus always)
            [example_offer ''O1'' 4 [(10000, 11000), (47101, 47200)]] [''a'', ''b''])) = 6 \<and>
   cpus (Resources (example_offer ''O1'' 4 [(10000, 11000), (47101, 47200)])) = 4"
  by (simp add: run_defs requested_cpus_def)

text \<open>
  C6. When the command of the only descriptor does not serialize, the handler unlocks
  the state mutex inside the loop and again after it: one Lock, two Unlocks, and the
  second Unlock finds the mutex unlocked.
\<close>

theorem marshal_failure_unlocks_twice:
  "calls (resourceOffers (example_taskman three_cpus never)
            [example_offer ''O1'' 4 [(47101, 47200)]] [''a'']) =
     [Lock, AgentCache_Update ''agent-O1'', Unlock, Unlock] \<and>
   crashed (resourceOffers (example_taskman three_cpus never)
            [example_offer ''O1'' 4 [(47101, 47200)]] [''a'']) = Some UnlockOfUnlockedMutex"
  by (simp add: run_defs)

lemma try_descriptor_descriptors:
  "descriptorsToDeploy (snd (try_descriptor tm offer d st)) = descriptorsToDeploy st"
  by (simp add: try_descriptor_def Let_def state_Unlock_def
      split: option.splits bound.splits port_claim.splits)

lemma try_descriptor_ignores_descriptors:
  "try_descriptor tm offer d (st\<lparr>descriptorsToDeploy := xs\<rparr>) =
     (fst (try_descriptor tm offer d st),
      (snd (try_descriptor tm offer d st))\<lparr>descriptorsToDeploy := xs\<rparr>)"
  by (simp add: try_descriptor_def Let_def state_Unlock_def
      split: option.splits bound.splits port_claim.splits)

lemma reverse_walk_ignores_descriptors:
  "reverse_walk tm offer ds kept (st\<lparr>descriptorsToDeploy := xs\<rparr>) = reverse_walk tm offer ds kept st"
proof (induction ds arbitrary: kept st)
  case Nil
  then show ?case by simp
next
  case (Cons d ds)
  show ?case
    by (simp add: try_descriptor_ignores_descriptors Cons.IH split_beta)
qed

lemma reverse_walk_crashed:
  "crashed st \<noteq> None \<Longrightarrow>
     reverse_walk tm offer ds kept st = st\<lparr>descriptorsToDeploy := rev ds @ kept\<rparr>"
  by (cases ds) simp_all

lemma FOR_DESCRIPTORS_reverse_walk:
  "descriptorsToDeploy st = pending @ kept \<Longrightarrow>
     FOR_DESCRIPTORS tm offer (length pending) st = reverse_walk tm offer (rev pending) kept st"
proof (induction pending arbitrary: kept st rule: rev_induct)
  case Nil
  then have "st\<lparr>descriptorsToDeploy := kept\<rparr> = st" by simp
  then show ?case by simp
next
  case (snoc d pending)
  let ?i = "length pending"
  have ds: "descriptorsToDeploy st = pending @ d # kept"
    using snoc.prems by simp
  show ?case
  proof (cases "crashed st = None")
    case False
    then have "iteration tm offer ?i st = st"
      by (simp add: iteration_def)
    moreover have "st\<lparr>descriptorsToDeploy := pending @ d # kept\<rparr> = st"
      using ds by simp
    ultimately show ?thesis
      using False snoc.IH [OF ds] by (simp add: reverse_walk_crashed)
  next
    case True
    obtain launched st' where t: "try_descriptor tm offer d st = (launched, st')"
      by (cases "try_descriptor tm offer d st")
    have ds': "descriptorsToDeploy st' = pending @ d # kept"
      using try_descriptor_descriptors [of tm offer d st] t ds by simp
    show ?thesis
    proof (cases launched)
      case True
      let ?st2 = "st'\<lparr>descriptorsToDeploy := pending @ kept\<rparr>"
      have "iteration tm offer ?i st = ?st2"
        using \<open>crashed st = None\<close> t True ds ds' by (simp add: iteration_def)
      moreover have "FOR_DESCRIPTORS tm offer ?i ?st2 = reverse_walk tm offer (rev pending) kept ?st2"
        by (rule snoc.IH) simp
      ultimately show ?thesis
        using \<open>crashed st = None\<close> t True by (simp add: reverse_walk_ignores_descriptors)
    next
      case False
      have "iteration tm offer ?i st = st'"
        using \<open>crashed st = None\<close> t False ds by (simp add: iteration_def)
      moreover have "FOR_DESCRIPTORS tm offer ?i st' = reverse_walk tm offer (rev pending) (d # kept) st'"
        by (rule snoc.IH) (rule ds')
      ultimately show ?thesis
        using \<open>crashed st = None\<close> t False by simp
    qed
  qed
qed

text \<open>
  C4. The loop over the indices \<open>len - 1\<close> down to \<open>0\<close>, which removes a matched
  descriptor from the list at its index, is the walk over the pending descriptors in
  reverse insertion order: the last-submitted descriptor is tried first on the offer's
  remaining resources, every launch is appended in that order, and the list left behind
  is the pending list without the launched descriptors, in its original order. No index
  is ever out of range.
\<close>

theorem FOR_DESCRIPTORS_walks_in_reverse:
  "FOR_DESCRIPTORS tm offer (length (descriptorsToDeploy st)) st =
     reverse_walk tm offer (rev (descriptorsToDeploy st)) [] st"
  by (rule FOR_DESCRIPTORS_reverse_walk) simp

text \<open>
  Two pending descriptors that could each be launched on an offer with a single port:
  the later one, \<open>b\<close>, gets it, and \<open>a\<close> stays pending.
\<close>

theorem FOR_DESCRIPTORS_walks_in_reverse_witness:
  "descriptorsToDeploy
     (FOR_DESCRIPTORS (example_taskman three_cpus always) (example_offer ''O1'' 4 [(30000, 30000)])
        (length [''a'', ''b''])
        ((initial_cycle [example_offer ''O1'' 4 [(30000, 30000)]] [''a'', ''b''])
           \<lparr>remainingResources := \<lparr>cpus = 4, mem = 8192, ports = [(30000, 30000)]\<rparr>\<rparr>)) = [''a''] \<and>
   map ti_descriptor (tasks
     (FOR_DESCRIPTORS (example_taskman three_cpus always) (example_offer ''O1'' 4 [(30000, 30000)])
        (length [''a'', ''b''])
        ((initial_cycle [example_offer ''O1'' 4 [(30000, 30000)]] [''a'', ''b''])
           \<lparr>remainingResources := \<lparr>cpus = 4, mem = 8192, ports = [(30000, 30000)]\<rparr>\<rparr>))) = [''b'']"
proof -
  let ?tm = "example_taskman three_cpus always"
  let ?offer = "example_offer ''O1'' 4 [(30000, 30000)]"
  let ?st = "(initial_cycle [?offer] [''a'', ''b''])
               \<lparr>remainingResources := \<lparr>cpus = 4, mem = 8192, ports = [(30000, 30000)]\<rparr>\<rparr>"
  have ds: "descriptorsToDeploy ?st = [''a'', ''b'']"
    by (simp add: initial_cycle_def)
  have walk: "FOR_DESCRIPTORS ?tm ?offer (length [''a'', ''b'']) ?st =
                reverse_walk ?tm ?offer (rev [''a'', ''b'']) [] ?st"
    using FOR_DESCRIPTORS_walks_in_reverse [of ?tm ?offer ?st] unfolding ds .
  show ?thesis
    unfolding walk by (simp add: run_defs)
qed












end
